theory Spec2Isabelle
  imports Complex_Main "HOL-Library.Word" "HOL-Library.Sublist"
begin

section \<open>JavaScript strings\<close>

text \<open>
  A JavaScript string is a sequence of 16-bit UTF-16 code units, and every string
  operation the front end uses (\<^verbatim>\<open>trim\<close>, \<^verbatim>\<open>startsWith\<close>, \<^verbatim>\<open>match\<close>, \<^verbatim>\<open>includes\<close>,
  \<^verbatim>\<open>!==\<close>, \<^verbatim>\<open>replace\<close>) works on code units. \<open>js\<close> writes an ASCII literal of the
  source as its code units.
\<close>

type_synonym jschar = "16 word"

type_synonym jsstring = "jschar list"

definition js :: "string \<Rightarrow> jsstring" where
  "js s = map (\<lambda>c. of_nat (of_char c)) s"

text \<open>
  \<^verbatim>\<open>String.prototype.trim\<close> strips the code points of ECMAScript's WhiteSpace and
  LineTerminator productions from both ends: TAB, LF, VT, FF, CR, SPACE, NBSP, U+1680,
  U+2000 to U+200A, U+2028, U+2029, U+202F, U+205F, U+3000 and U+FEFF. All of them are
  single code units.
\<close>

definition is_js_whitespace :: "jschar \<Rightarrow> bool" where
  "is_js_whitespace c \<longleftrightarrow>
     (0x09 \<le> c \<and> c \<le> 0x0D) \<or> c = 0x20 \<or> c = 0xA0 \<or> c = 0x1680 \<or>
     (0x2000 \<le> c \<and> c \<le> 0x200A) \<or> c = 0x2028 \<or> c = 0x2029 \<or> c = 0x202F \<or>
     c = 0x205F \<or> c = 0x3000 \<or> c = 0xFEFF"

definition trim :: "jsstring \<Rightarrow> jsstring" where
  "trim s = rev (dropWhile is_js_whitespace (rev (dropWhile is_js_whitespace s)))"

text \<open>\<^verbatim>\<open>channelName.startsWith('@')\<close>: the first code unit is U+0040.\<close>

definition startsWith_at :: "jsstring \<Rightarrow> bool" where
  "startsWith_at s = (case s of [] \<Rightarrow> False | c # _ \<Rightarrow> c = 0x40)"

text \<open>
  \<^verbatim>\<open>channelName.match(/^-?\d+$/)\<close> is non-null exactly when the whole string is an optional
  \<^verbatim>\<open>-\<close> (U+002D) followed by one or more of the ASCII digits U+0030 to U+0039: the regular
  expression has no flags, so \<^verbatim>\<open>\d\<close> is \<^verbatim>\<open>[0-9]\<close> and \<^verbatim>\<open>$\<close> is the end of the input.
\<close>

definition is_digit :: "jschar \<Rightarrow> bool" where
  "is_digit c \<longleftrightarrow> 0x30 \<le> c \<and> c \<le> 0x39"

definition digits1 :: "jsstring \<Rightarrow> bool" where
  "digits1 s \<longleftrightarrow> s \<noteq> [] \<and> list_all is_digit s"

definition match_id :: "jsstring \<Rightarrow> bool" where
  "match_id s = (case s of [] \<Rightarrow> False | c # cs \<Rightarrow> if c = 0x2D then digits1 cs else digits1 s)"


section \<open>The channel list of the front end\<close>

text \<open>
  The page keeps the global \<^verbatim>\<open>channels\<close> array, the text field \<^verbatim>\<open>channelInput\<close> and the
  \<^verbatim>\<open>telegram_channels\<close> entry of \<^verbatim>\<open>localStorage\<close> (the array as JSON, absent until the
  first write). \<^verbatim>\<open>showNotification\<close> only logs; the message an operation reports is its
  result here.
\<close>

record page =
  channels :: "jsstring list"
  channelInput :: jsstring
  telegram_channels :: "jsstring list option"

datatype notification =
    EnterChannel
  | ChannelInvalid
  | ChannelExists
  | ChannelAdded jsstring
  | ChannelRemoved jsstring

definition addChannel :: "page \<Rightarrow> notification \<times> page" where
  "addChannel p =
     (let channelName = trim (channelInput p) in
      if channelName = [] then (EnterChannel, p)
      else if \<not> startsWith_at channelName \<and> \<not> match_id channelName then (ChannelInvalid, p)
      else if channelName \<in> set (channels p) then (ChannelExists, p)
      else
        (let chs = channels p @ [channelName] in
         (ChannelAdded channelName,
          p\<lparr>channels := chs, telegram_channels := Some chs, channelInput := []\<rparr>)))"

definition removeChannel :: "jsstring \<Rightarrow> page \<Rightarrow> notification \<times> page" where
  "removeChannel channelName p =
     (let chs = filter (\<lambda>ch. ch \<noteq> channelName) (channels p) in
      (ChannelRemoved channelName, p\<lparr>channels := chs, telegram_channels := Some chs\<rparr>))"

text \<open>
  The two ways the page calls them: the add button and the Enter key call
  \<^verbatim>\<open>addChannel()\<close> on whatever text the field holds, and the remove button of an entry
  calls \<^verbatim>\<open>removeChannel\<close> with a name.
\<close>

datatype action = Add jsstring | Remove jsstring

fun perform :: "page \<Rightarrow> action \<Rightarrow> page" where
  "perform p (Add txt) = snd (addChannel (p\<lparr>channelInput := txt\<rparr>))"
| "perform p (Remove name) = snd (removeChannel name p)"

definition run :: "action list \<Rightarrow> page \<Rightarrow> page" where
  "run acts p = foldl perform p acts"

definition channel_format :: "jsstring \<Rightarrow> bool" where
  "channel_format c \<longleftrightarrow> startsWith_at c \<or> match_id c"

definition channels_inv :: "jsstring list \<Rightarrow> bool" where
  "channels_inv chs \<longleftrightarrow> distinct chs \<and> list_all channel_format chs"


section \<open>Price display\<close>

text \<open>
  \<^verbatim>\<open>formatPrice(price)\<close> picks an \<^verbatim>\<open>Intl.NumberFormat\<close> by comparing the price with 10000
  and formats the price with it. The price is the JSON number of a message; a JSON number
  is finite, and comparing a finite double with 10000 is comparing the real numbers they
  denote. The result here is the formatter chosen (locale, currency, fraction digits)
  with the number handed to it; the rendering is the platform's.
\<close>

datatype currency = USD | VND

record price_format =
  nf_locale :: string
  nf_currency :: currency
  nf_maximumFractionDigits :: nat
  nf_value :: real

definition formatPrice :: "real \<Rightarrow> price_format" where
  "formatPrice price =
     (if price < 10000
      then \<lparr>nf_locale = ''en-US'', nf_currency = USD, nf_maximumFractionDigits = 0, nf_value = price\<rparr>
      else \<lparr>nf_locale = ''vi-VN'', nf_currency = VND, nf_maximumFractionDigits = 0, nf_value = price\<rparr>)"

text \<open>
  The magnitude heuristic in the words of the specification of the price extractor: an
  amount below 10,000 is in USD, an amount of 10,000 or more is in VND. It is a relation
  between an amount and the currency inferred for it.
\<close>

definition spec_magnitude_heuristic :: "real \<Rightarrow> currency \<Rightarrow> bool" where
  "spec_magnitude_heuristic amount c \<longleftrightarrow>
     (amount < 10000 \<longrightarrow> c = USD) \<and> (amount \<ge> 10000 \<longrightarrow> c = VND)"


section \<open>The translation lookup\<close>

text \<open>
  The two tables of \<^verbatim>\<open>translations\<close>, entry by entry in the order of the source. A value is
  written as its code units, the ASCII stretches through \<open>js\<close>.
\<close>

definition ua_table :: "(jsstring \<times> jsstring) list" where
  "ua_table =
     [(js ''app.title'', [0xD83C, 0xDFE0] @ js '' '' @ [0x424, 0x456, 0x43B, 0x44C, 0x442,
        0x440] @ js '' '' @ [0x43E, 0x433, 0x43E, 0x43B, 0x43E, 0x448, 0x435, 0x43D, 0x44C] @
        js '' '' @ [0x43F, 0x440, 0x43E] @ js '' '' @ [0x43E, 0x440, 0x435, 0x43D, 0x434,
        0x443]),
      (js ''app.subtitle'', [0x41F, 0x43E, 0x448, 0x443, 0x43A] @ js '' '' @ [0x436, 0x438,
        0x442, 0x43B, 0x430] @ js '' '' @ [0x437] @ js '' Telegram '' @ [0x43A, 0x430, 0x43D,
        0x430, 0x43B, 0x443]),
      (js ''stats.total'', [0x412, 0x441, 0x44C, 0x43E, 0x433, 0x43E] @ js '' '' @ [0x43E,
        0x433, 0x43E, 0x43B, 0x43E, 0x448, 0x435, 0x43D, 0x44C] @ js '':''),
      (js ''stats.with_price'', [0x417] @ js '' '' @ [0x446, 0x456, 0x43D, 0x43E, 0x44E] @
        js '':''),
      (js ''stats.with_location'', [0x417] @ js '' '' @ [0x43B, 0x43E, 0x43A, 0x430, 0x446,
        0x456, 0x454, 0x44E] @ js '':''),
      (js ''stats.updated'', [0x41E, 0x43D, 0x43E, 0x432, 0x43B, 0x435, 0x43D, 0x43E] @
        js '':''),
      (js ''filters.title'', [0x41D, 0x430, 0x43B, 0x430, 0x448, 0x442, 0x443, 0x432, 0x430,
        0x43D, 0x43D, 0x44F] @ js '' '' @ [0x442, 0x430] @ js '' '' @ [0x444, 0x456, 0x43B,
        0x44C, 0x442, 0x440, 0x438]),
      (js ''filters.channels'', [0xD83D, 0xDCFA] @ js '' Telegram '' @ [0x43A, 0x430, 0x43D,
        0x430, 0x43B, 0x438]),
      (js ''filters.channels_hint'', js ''('' @ [0x43D, 0x430, 0x43F, 0x440, 0x438, 0x43A,
        0x43B, 0x430, 0x434] @ js '': @arenda_kvartir)''),
      (js ''filters.add_channel'', [0x2795] @ js '' '' @ [0x414, 0x43E, 0x434, 0x430, 0x442,
        0x438]),
      (js ''filters.no_channels'', [0x41D, 0x435, 0x43C, 0x430, 0x454] @ js '' '' @ [0x434,
        0x43E, 0x434, 0x430, 0x43D, 0x438, 0x445] @ js '' '' @ [0x43A, 0x430, 0x43D, 0x430,
        0x43B, 0x456, 0x432]),
      (js ''filters.search_title'', [0x424, 0x456, 0x43B, 0x44C, 0x442, 0x440, 0x438] @ js '' ''
        @ [0x43F, 0x43E, 0x448, 0x443, 0x43A, 0x443]),
      (js ''filters.min_price'', [0x41C, 0x456, 0x43D, 0x456, 0x43C, 0x430, 0x43B, 0x44C, 0x43D,
        0x430] @ js '' '' @ [0x446, 0x456, 0x43D, 0x430] @ js '' ('' @ [0x43C, 0x43B, 0x43D] @
        js '' VND '' @ [0x430, 0x431, 0x43E] @ js '' USD)''),
      (js ''filters.max_price'', [0x41C, 0x430, 0x43A, 0x441, 0x438, 0x43C, 0x430, 0x43B, 0x44C,
        0x43D, 0x430] @ js '' '' @ [0x446, 0x456, 0x43D, 0x430] @ js '' ('' @ [0x43C, 0x43B,
        0x43D] @ js '' VND '' @ [0x430, 0x431, 0x43E] @ js '' USD)''),
      (js ''filters.include_locations'', [0x412, 0x43A, 0x43B, 0x44E, 0x447, 0x438, 0x442,
        0x438] @ js '' '' @ [0x43B, 0x43E, 0x43A, 0x430, 0x446, 0x456, 0x457] @
        js '' (whitelist)''),
      (js ''filters.include_hint'', [0x442, 0x456, 0x43B, 0x44C, 0x43A, 0x438] @ js '' '' @
        [0x437] @ js '' '' @ [0x446, 0x438, 0x43C, 0x438] @ js '' '' @ [0x440, 0x430, 0x439,
        0x43E, 0x43D, 0x430, 0x43C, 0x438]),
      (js ''filters.exclude_areas'', [0x26D4] @ js '' '' @ [0x412, 0x438, 0x43A, 0x43B, 0x44E,
        0x447, 0x438, 0x442, 0x438] @ js '' '' @ [0x440, 0x430, 0x439, 0x43E, 0x43D, 0x438] @
        js '' (blacklist)''),
      (js ''filters.exclude_hint'', [0x43F, 0x43E, 0x448, 0x443, 0x43A] @ js '' '' @ [0x43F,
        0x43E] @ js '' '' @ [0x432, 0x441, 0x44C, 0x43E, 0x43C, 0x443] @ js '' '' @ [0x442,
        0x435, 0x43A, 0x441, 0x442, 0x443] @ js '', '' @ [0x447, 0x435, 0x440, 0x435, 0x437] @
        js '' '' @ [0x43A, 0x43E, 0x43C, 0x443]),
      (js ''filters.sort'', [0xD83D, 0xDCCA] @ js '' '' @ [0x421, 0x43E, 0x440, 0x442, 0x443,
        0x432, 0x430, 0x43D, 0x43D, 0x44F]),
      (js ''filters.sort_hint'', [0x43F, 0x43E, 0x440, 0x44F, 0x434, 0x43E, 0x43A] @ js '' '' @
        [0x432, 0x456, 0x434, 0x43E, 0x431, 0x440, 0x430, 0x436, 0x435, 0x43D, 0x43D, 0x44F]),
      (js ''sort.date_desc'', [0x421, 0x43F, 0x43E, 0x447, 0x430, 0x442, 0x43A, 0x443] @
        js '' '' @ [0x43D, 0x43E, 0x432, 0x456]),
      (js ''sort.date_asc'', [0x421, 0x43F, 0x43E, 0x447, 0x430, 0x442, 0x43A, 0x443] @ js '' ''
        @ [0x441, 0x442, 0x430, 0x440, 0x456]),
      (js ''sort.price_desc'', [0x426, 0x456, 0x43D, 0x430] @ js '': '' @ [0x432, 0x456, 0x434]
        @ js '' '' @ [0x431, 0x456, 0x43B, 0x44C, 0x448, 0x43E, 0x457] @ js '' '' @ [0x434,
        0x43E] @ js '' '' @ [0x43C, 0x435, 0x43D, 0x448, 0x43E, 0x457]),
      (js ''sort.price_asc'', [0x426, 0x456, 0x43D, 0x430] @ js '': '' @ [0x432, 0x456, 0x434] @
        js '' '' @ [0x43C, 0x435, 0x43D, 0x448, 0x43E, 0x457] @ js '' '' @ [0x434, 0x43E] @
        js '' '' @ [0x431, 0x456, 0x43B, 0x44C, 0x448, 0x43E, 0x457]),
      (js ''btn.apply_filters'', [0xD83D, 0xDD0D] @ js '' '' @ [0x417, 0x430, 0x441, 0x442,
        0x43E, 0x441, 0x443, 0x432, 0x430, 0x442, 0x438] @ js '' '' @ [0x444, 0x456, 0x43B,
        0x44C, 0x442, 0x440, 0x438]),
      (js ''btn.reset'', [0x21BA] @ js '' '' @ [0x421, 0x43A, 0x438, 0x43D, 0x443, 0x442,
        0x438]),
      (js ''btn.refresh'', [0x27F3] @ js '' '' @ [0x41E, 0x43D, 0x43E, 0x432, 0x438, 0x442,
        0x438] @ js '' '' @ [0x43F, 0x43E, 0x432, 0x456, 0x434, 0x43E, 0x43C, 0x43B, 0x435,
        0x43D, 0x43D, 0x44F]),
      (js ''results.title'', [0x420, 0x435, 0x437, 0x443, 0x43B, 0x44C, 0x442, 0x430, 0x442,
        0x438]),
      (js ''results.count'', [0x43E, 0x433, 0x43E, 0x43B, 0x43E, 0x448, 0x435, 0x43D, 0x44C]),
      (js ''results.empty'', [0x41D, 0x430, 0x442, 0x438, 0x441, 0x43D, 0x456, 0x442, 0x44C] @
        js '' '' @ [0x22, 0x41E, 0x43D, 0x43E, 0x432, 0x438, 0x442, 0x438] @ js '' '' @ [0x43F,
        0x43E, 0x432, 0x456, 0x434, 0x43E, 0x43C, 0x43B, 0x435, 0x43D, 0x43D, 0x44F, 0x22] @
        js '' '' @ [0x434, 0x43B, 0x44F] @ js '' '' @ [0x437, 0x430, 0x432, 0x430, 0x43D, 0x442,
        0x430, 0x436, 0x435, 0x43D, 0x43D, 0x44F] @ js '' '' @ [0x43E, 0x433, 0x43E, 0x43B,
        0x43E, 0x448, 0x435, 0x43D, 0x44C]),
      (js ''results.loading'', [0x417, 0x430, 0x432, 0x430, 0x43D, 0x442, 0x430, 0x436, 0x435,
        0x43D, 0x43D, 0x44F] @ js ''...''),
      (js ''msg.price_not_set'', [0x426, 0x456, 0x43D, 0x430] @ js '' '' @ [0x43D, 0x435] @
        js '' '' @ [0x432, 0x43A, 0x430, 0x437, 0x430, 0x43D, 0x430]),
      (js ''msg.location_not_set'', [0x41B, 0x43E, 0x43A, 0x430, 0x446, 0x456, 0x44F] @ js '' ''
        @ [0x43D, 0x435] @ js '' '' @ [0x432, 0x43A, 0x430, 0x437, 0x430, 0x43D, 0x430]),
      (js ''msg.open_telegram'', [0xD83D, 0xDCF1] @ js '' '' @ [0x412, 0x456, 0x434, 0x43A,
        0x440, 0x438, 0x442, 0x438] @ js '' '' @ [0x432] @ js '' Telegram''),
      (js ''notif.channel_added'', [0x41A, 0x430, 0x43D, 0x430, 0x43B] @ js '' {channel} '' @
        [0x434, 0x43E, 0x434, 0x430, 0x43D, 0x43E]),
      (js ''notif.channel_removed'', [0x41A, 0x430, 0x43D, 0x430, 0x43B] @ js '' {channel} '' @
        [0x432, 0x438, 0x434, 0x430, 0x43B, 0x435, 0x43D, 0x43E]),
      (js ''notif.channel_exists'', [0x426, 0x435, 0x439] @ js '' '' @ [0x43A, 0x430, 0x43D,
        0x430, 0x43B] @ js '' '' @ [0x432, 0x436, 0x435] @ js '' '' @ [0x434, 0x43E, 0x434,
        0x430, 0x43D, 0x43E]),
      (js ''notif.channel_invalid'', [0x41A, 0x430, 0x43D, 0x430, 0x43B] @ js '' '' @ [0x43F,
        0x43E, 0x432, 0x438, 0x43D, 0x435, 0x43D] @ js '' '' @ [0x43F, 0x43E, 0x447, 0x438,
        0x43D, 0x430, 0x442, 0x438, 0x441, 0x44F] @ js '' '' @ [0x437] @ js '' @ '' @ [0x430,
        0x431, 0x43E] @ js '' '' @ [0x431, 0x443, 0x442, 0x438] @ js '' ID''),
      (js ''notif.enter_channel'', [0x412, 0x432, 0x435, 0x434, 0x456, 0x442, 0x44C] @ js '' ''
        @ [0x43D, 0x430, 0x437, 0x432, 0x443] @ js '' '' @ [0x43A, 0x430, 0x43D, 0x430, 0x43B,
        0x443]),
      (js ''notif.add_channel_first'', [0x421, 0x43F, 0x43E, 0x447, 0x430, 0x442, 0x43A, 0x443]
        @ js '' '' @ [0x434, 0x43E, 0x434, 0x430, 0x439, 0x442, 0x435] @ js '' '' @ [0x445,
        0x43E, 0x447, 0x430] @ js '' '' @ [0x431] @ js '' '' @ [0x43E, 0x434, 0x438, 0x43D] @
        js '' '' @ [0x43A, 0x430, 0x43D, 0x430, 0x43B] @ js ''!''),
      (js ''notif.loading_from_channels'', [0x417, 0x430, 0x432, 0x430, 0x43D, 0x442, 0x430,
        0x436, 0x435, 0x43D, 0x43D, 0x44F] @ js '' '' @ [0x43F, 0x43E, 0x432, 0x456, 0x434,
        0x43E, 0x43C, 0x43B, 0x435, 0x43D, 0x44C] @ js '' '' @ [0x437] @ js '' {count} '' @
        [0x43A, 0x430, 0x43D, 0x430, 0x43B, 0x456, 0x432] @ js ''...''),
      (js ''notif.loaded_messages'', [0x417, 0x430, 0x432, 0x430, 0x43D, 0x442, 0x430, 0x436,
        0x435, 0x43D, 0x43E] @ js '' {count} '' @ [0x43F, 0x43E, 0x432, 0x456, 0x434, 0x43E,
        0x43C, 0x43B, 0x435, 0x43D, 0x44C] @ js '' '' @ [0x437] @ js '' {channels} '' @ [0x43A,
        0x430, 0x43D, 0x430, 0x43B, 0x456, 0x432]),
      (js ''notif.found_messages'', [0x417, 0x43D, 0x430, 0x439, 0x434, 0x435, 0x43D, 0x43E] @
        js '' {count} '' @ [0x43E, 0x433, 0x43E, 0x43B, 0x43E, 0x448, 0x435, 0x43D, 0x44C]),
      (js ''notif.no_results'', [0x41D, 0x435, 0x43C, 0x430, 0x454] @ js '' '' @ [0x43E, 0x433,
        0x43E, 0x43B, 0x43E, 0x448, 0x435, 0x43D, 0x44C] @ js '', '' @ [0x449, 0x43E] @ js '' ''
        @ [0x432, 0x456, 0x434, 0x43F, 0x43E, 0x432, 0x456, 0x434, 0x430, 0x44E, 0x442, 0x44C] @
        js '' '' @ [0x43A, 0x440, 0x438, 0x442, 0x435, 0x440, 0x456, 0x44F, 0x43C]),
      (js ''placeholder.channel'', js ''@channel_name''),
      (js ''placeholder.min_price'', [0x412, 0x456, 0x434] @ js '' 0''),
      (js ''placeholder.max_price'', [0x414, 0x43E] @ js '' '' @ [0x221E]),
      (js ''placeholder.locations'', js ''M'' @ [0x1EF9] @ js '' An, An Th'' @ [0x1B0, 0x1EE3] @
        js ''ng...''),
      (js ''placeholder.exclude'', js ''my an, hoa hai, khue my...''),
      (js ''photo.loading'', [0xD83D, 0xDCF8] @ js '' '' @ [0x417, 0x430, 0x432, 0x430, 0x43D,
        0x442, 0x430, 0x436, 0x435, 0x43D, 0x43D, 0x44F] @ js ''...''),
      (js ''photo.error'', [0x26A0, 0xFE0F] @ js '' '' @ [0x41F, 0x43E, 0x43C, 0x438, 0x43B,
        0x43A, 0x430] @ js '' '' @ [0x437, 0x430, 0x432, 0x430, 0x43D, 0x442, 0x430, 0x436,
        0x435, 0x43D, 0x43D, 0x44F]),
      (js ''photo.channel_missing'', [0x26A0, 0xFE0F] @ js '' '' @ [0x41A, 0x430, 0x43D, 0x430,
        0x43B] @ js '' '' @ [0x43D, 0x435] @ js '' '' @ [0x432, 0x43A, 0x430, 0x437, 0x430,
        0x43D, 0x43E]),
      (js ''error.stats_loading'', [0x41F, 0x43E, 0x43C, 0x438, 0x43B, 0x43A, 0x430] @ js '' ''
        @ [0x437, 0x430, 0x432, 0x430, 0x43D, 0x442, 0x430, 0x436, 0x435, 0x43D, 0x43D, 0x44F] @
        js '' '' @ [0x441, 0x442, 0x430, 0x442, 0x438, 0x441, 0x442, 0x438, 0x43A, 0x438]),
      (js ''error.messages_loading'', [0x41F, 0x43E, 0x43C, 0x438, 0x43B, 0x43A, 0x430] @
        js '' '' @ [0x437, 0x430, 0x432, 0x430, 0x43D, 0x442, 0x430, 0x436, 0x435, 0x43D, 0x43D,
        0x44F] @ js '' '' @ [0x43F, 0x43E, 0x432, 0x456, 0x434, 0x43E, 0x43C, 0x43B, 0x435,
        0x43D, 0x44C]),
      (js ''error.data_loading'', [0x41F, 0x43E, 0x43C, 0x438, 0x43B, 0x43A, 0x430] @ js '' '' @
        [0x437, 0x430, 0x432, 0x430, 0x43D, 0x442, 0x430, 0x436, 0x435, 0x43D, 0x43D, 0x44F] @
        js '' '' @ [0x434, 0x430, 0x43D, 0x438, 0x445] @ js ''. '' @ [0x41F, 0x435, 0x440,
        0x435, 0x432, 0x456, 0x440, 0x442, 0x435] @ js '' '' @ [0x43D, 0x430, 0x43B, 0x430,
        0x448, 0x442, 0x443, 0x432, 0x430, 0x43D, 0x43D, 0x44F] @ js '' API.''),
      (js ''error.refresh'', [0x41F, 0x43E, 0x43C, 0x438, 0x43B, 0x43A, 0x430] @ js '' '' @
        [0x43E, 0x43D, 0x43E, 0x432, 0x43B, 0x435, 0x43D, 0x43D, 0x44F]),
      (js ''cache.just_now'', [0x429, 0x43E, 0x439, 0x43D, 0x43E]),
      (js ''cache.minutes_ago'', js ''{minutes} '' @ [0x445, 0x432] @ js '' '' @ [0x442, 0x43E,
        0x43C, 0x443]),
      (js ''cache.not_loaded'', [0x41D, 0x435] @ js '' '' @ [0x437, 0x430, 0x432, 0x430, 0x43D,
        0x442, 0x430, 0x436, 0x435, 0x43D, 0x43E]),
      (js ''other.views_abbr'', [0x43F, 0x435, 0x440, 0x435, 0x433, 0x43B] @ js ''.'')]"

definition vi_table :: "(jsstring \<times> jsstring) list" where
  "vi_table =
     [(js ''app.title'', [0xD83C, 0xDFE0] @ js '' B'' @ [0x1ED9] @ js '' l'' @ [0x1ECD] @
        js ''c tin cho thu'' @ [0xEA] @ js '' nh'' @ [0xE0]),
      (js ''app.subtitle'', js ''T'' @ [0xEC] @ js ''m ki'' @ [0x1EBF] @ js ''m nh'' @ [0xE0] @
        js '' t'' @ [0x1EEB] @ js '' k'' @ [0xEA] @ js ''nh Telegram''),
      (js ''stats.total'', js ''T'' @ [0x1ED5] @ js ''ng tin '' @ [0x111, 0x103] @ js ''ng:''),
      (js ''stats.with_price'', js ''C'' @ [0xF3] @ js '' gi'' @ [0xE1] @ js '':''),
      (js ''stats.with_location'', js ''C'' @ [0xF3] @ js '' '' @ [0x111, 0x1ECB] @ js ''a '' @
        [0x111] @ js ''i'' @ [0x1EC3] @ js ''m:''),
      (js ''stats.updated'', js ''C'' @ [0x1EAD] @ js ''p nh'' @ [0x1EAD] @ js ''t:''),
      (js ''filters.title'', js ''C'' @ [0xE0] @ js ''i '' @ [0x111, 0x1EB7] @ js ''t v'' @
        [0xE0] @ js '' b'' @ [0x1ED9] @ js '' l'' @ [0x1ECD] @ js ''c''),
      (js ''filters.channels'', [0xD83D, 0xDCFA] @ js '' K'' @ [0xEA] @ js ''nh Telegram''),
      (js ''filters.channels_hint'', js ''(v'' @ [0xED] @ js '' d'' @ [0x1EE5] @
        js '': @arenda_kvartir)''),
      (js ''filters.add_channel'', [0x2795] @ js '' Th'' @ [0xEA] @ js ''m''),
      (js ''filters.no_channels'', js ''Ch'' @ [0x1B0] @ js ''a c'' @ [0xF3] @ js '' k'' @
        [0xEA] @ js ''nh n'' @ [0xE0] @ js ''o''),
      (js ''filters.search_title'', js ''B'' @ [0x1ED9] @ js '' l'' @ [0x1ECD] @ js ''c t'' @
        [0xEC] @ js ''m ki'' @ [0x1EBF] @ js ''m''),
      (js ''filters.min_price'', js ''Gi'' @ [0xE1] @ js '' t'' @ [0x1ED1] @ js ''i thi'' @
        [0x1EC3] @ js ''u (tri'' @ [0x1EC7] @ js ''u VND ho'' @ [0x1EB7] @ js ''c USD)''),
      (js ''filters.max_price'', js ''Gi'' @ [0xE1] @ js '' t'' @ [0x1ED1] @ js ''i '' @ [0x111]
        @ js ''a (tri'' @ [0x1EC7] @ js ''u VND ho'' @ [0x1EB7] @ js ''c USD)''),
      (js ''filters.include_locations'', js ''Bao g'' @ [0x1ED3] @ js ''m '' @ [0x111, 0x1ECB] @
        js ''a '' @ [0x111] @ js ''i'' @ [0x1EC3] @ js ''m (whitelist)''),
      (js ''filters.include_hint'', js ''ch'' @ [0x1EC9] @ js '' nh'' @ [0x1EEF] @
        js ''ng khu v'' @ [0x1EF1] @ js ''c n'' @ [0xE0] @ js ''y''),
      (js ''filters.exclude_areas'', [0x26D4] @ js '' Lo'' @ [0x1EA1] @ js ''i tr'' @ [0x1EEB] @
        js '' khu v'' @ [0x1EF1] @ js ''c (blacklist)''),
      (js ''filters.exclude_hint'', js ''t'' @ [0xEC] @ js ''m trong to'' @ [0xE0] @ js ''n b''
        @ [0x1ED9] @ js '' v'' @ [0x103] @ js ''n b'' @ [0x1EA3] @ js ''n, ph'' @ [0xE2] @
        js ''n c'' @ [0xE1] @ js ''ch b'' @ [0x1EB1] @ js ''ng d'' @ [0x1EA5] @ js ''u ph'' @
        [0x1EA9] @ js ''y''),
      (js ''filters.sort'', [0xD83D, 0xDCCA] @ js '' S'' @ [0x1EAF] @ js ''p x'' @ [0x1EBF] @
        js ''p''),
      (js ''filters.sort_hint'', js ''th'' @ [0x1EE9] @ js '' t'' @ [0x1EF1] @ js '' hi'' @
        [0x1EC3] @ js ''n th'' @ [0x1ECB]),
      (js ''sort.date_desc'', js ''M'' @ [0x1EDB] @ js ''i nh'' @ [0x1EA5] @ js ''t tr'' @
        [0x1B0, 0x1EDB] @ js ''c''),
      (js ''sort.date_asc'', js ''C'' @ [0x169] @ js '' nh'' @ [0x1EA5] @ js ''t tr'' @ [0x1B0,
        0x1EDB] @ js ''c''),
      (js ''sort.price_desc'', js ''Gi'' @ [0xE1] @ js '': Cao '' @ [0x111, 0x1EBF] @
        js ''n th'' @ [0x1EA5] @ js ''p''),
      (js ''sort.price_asc'', js ''Gi'' @ [0xE1] @ js '': Th'' @ [0x1EA5] @ js ''p '' @ [0x111,
        0x1EBF] @ js ''n cao''),
      (js ''btn.apply_filters'', [0xD83D, 0xDD0D] @ js '' '' @ [0xC1] @ js ''p d'' @ [0x1EE5] @
        js ''ng b'' @ [0x1ED9] @ js '' l'' @ [0x1ECD] @ js ''c''),
      (js ''btn.reset'', [0x21BA] @ js '' '' @ [0x110, 0x1EB7] @ js ''t l'' @ [0x1EA1] @
        js ''i''),
      (js ''btn.refresh'', [0x27F3] @ js '' L'' @ [0xE0] @ js ''m m'' @ [0x1EDB] @
        js ''i tin nh'' @ [0x1EAF] @ js ''n''),
      (js ''results.title'', js ''K'' @ [0x1EBF] @ js ''t qu'' @ [0x1EA3]),
      (js ''results.count'', js ''tin '' @ [0x111, 0x103] @ js ''ng''),
      (js ''results.empty'', js ''Nh'' @ [0x1EA5] @ js ''n '' @ [0x22] @ js ''L'' @ [0xE0] @
        js ''m m'' @ [0x1EDB] @ js ''i tin nh'' @ [0x1EAF] @ js ''n'' @ [0x22] @ js '' '' @
        [0x111, 0x1EC3] @ js '' t'' @ [0x1EA3] @ js ''i tin '' @ [0x111, 0x103] @ js ''ng''),
      (js ''results.loading'', [0x110] @ js ''ang t'' @ [0x1EA3] @ js ''i...''),
      (js ''msg.price_not_set'', js ''Ch'' @ [0x1B0] @ js ''a c'' @ [0xF3] @ js '' gi'' @
        [0xE1]),
      (js ''msg.location_not_set'', js ''Ch'' @ [0x1B0] @ js ''a c'' @ [0xF3] @ js '' '' @
        [0x111, 0x1ECB] @ js ''a '' @ [0x111] @ js ''i'' @ [0x1EC3] @ js ''m''),
      (js ''msg.open_telegram'', [0xD83D, 0xDCF1] @ js '' M'' @ [0x1EDF] @
        js '' trong Telegram''),
      (js ''notif.channel_added'', [0x110, 0xE3] @ js '' th'' @ [0xEA] @ js ''m k'' @ [0xEA] @
        js ''nh {channel}''),
      (js ''notif.channel_removed'', [0x110, 0xE3] @ js '' x'' @ [0xF3] @ js ''a k'' @ [0xEA] @
        js ''nh {channel}''),
      (js ''notif.channel_exists'', js ''K'' @ [0xEA] @ js ''nh n'' @ [0xE0] @ js ''y '' @
        [0x111, 0xE3] @ js '' '' @ [0x111, 0x1B0, 0x1EE3] @ js ''c th'' @ [0xEA] @ js ''m''),
      (js ''notif.channel_invalid'', js ''K'' @ [0xEA] @ js ''nh ph'' @ [0x1EA3] @ js ''i b'' @
        [0x1EAF] @ js ''t '' @ [0x111, 0x1EA7] @ js ''u b'' @ [0x1EB1] @ js ''ng @ ho'' @
        [0x1EB7] @ js ''c l'' @ [0xE0] @ js '' ID''),
      (js ''notif.enter_channel'', js ''Nh'' @ [0x1EAD] @ js ''p t'' @ [0xEA] @ js ''n k'' @
        [0xEA] @ js ''nh''),
      (js ''notif.add_channel_first'', js ''Vui l'' @ [0xF2] @ js ''ng th'' @ [0xEA] @ js ''m ''
        @ [0xED] @ js ''t nh'' @ [0x1EA5] @ js ''t m'' @ [0x1ED9] @ js ''t k'' @ [0xEA] @
        js ''nh tr'' @ [0x1B0, 0x1EDB] @ js ''c!''),
      (js ''notif.loading_from_channels'', [0x110] @ js ''ang t'' @ [0x1EA3] @ js ''i tin nh'' @
        [0x1EAF] @ js ''n t'' @ [0x1EEB] @ js '' {count} k'' @ [0xEA] @ js ''nh...''),
      (js ''notif.loaded_messages'', [0x110, 0xE3] @ js '' t'' @ [0x1EA3] @
        js ''i {count} tin nh'' @ [0x1EAF] @ js ''n t'' @ [0x1EEB] @ js '' {channels} k'' @
        [0xEA] @ js ''nh''),
      (js ''notif.found_messages'', js ''T'' @ [0xEC] @ js ''m th'' @ [0x1EA5] @
        js ''y {count} tin '' @ [0x111, 0x103] @ js ''ng''),
      (js ''notif.no_results'', js ''Kh'' @ [0xF4] @ js ''ng c'' @ [0xF3] @ js '' tin '' @
        [0x111, 0x103] @ js ''ng ph'' @ [0xF9] @ js '' h'' @ [0x1EE3] @ js ''p v'' @ [0x1EDB] @
        js ''i ti'' @ [0xEA] @ js ''u ch'' @ [0xED]),
      (js ''placeholder.channel'', js ''@ten_kenh''),
      (js ''placeholder.min_price'', js ''T'' @ [0x1EEB] @ js '' 0''),
      (js ''placeholder.max_price'', [0x110, 0x1EBF] @ js ''n '' @ [0x221E]),
      (js ''placeholder.locations'', js ''M'' @ [0x1EF9] @ js '' An, An Th'' @ [0x1B0, 0x1EE3] @
        js ''ng...''),
      (js ''placeholder.exclude'', js ''my an, hoa hai, khue my...''),
      (js ''photo.loading'', [0xD83D, 0xDCF8] @ js '' '' @ [0x110] @ js ''ang t'' @ [0x1EA3] @
        js ''i...''),
      (js ''photo.error'', [0x26A0, 0xFE0F] @ js '' L'' @ [0x1ED7] @ js ''i t'' @ [0x1EA3] @
        js ''i''),
      (js ''photo.channel_missing'', [0x26A0, 0xFE0F] @ js '' Ch'' @ [0x1B0] @ js ''a c'' @
        [0xF3] @ js '' k'' @ [0xEA] @ js ''nh''),
      (js ''error.stats_loading'', js ''L'' @ [0x1ED7] @ js ''i t'' @ [0x1EA3] @ js ''i th'' @
        [0x1ED1] @ js ''ng k'' @ [0xEA]),
      (js ''error.messages_loading'', js ''L'' @ [0x1ED7] @ js ''i t'' @ [0x1EA3] @
        js ''i tin nh'' @ [0x1EAF] @ js ''n''),
      (js ''error.data_loading'', js ''L'' @ [0x1ED7] @ js ''i t'' @ [0x1EA3] @ js ''i d'' @
        [0x1EEF] @ js '' li'' @ [0x1EC7] @ js ''u. Ki'' @ [0x1EC3] @ js ''m tra c'' @ [0xE0] @
        js ''i '' @ [0x111, 0x1EB7] @ js ''t API.''),
      (js ''error.refresh'', js ''L'' @ [0x1ED7] @ js ''i l'' @ [0xE0] @ js ''m m'' @ [0x1EDB] @
        js ''i''),
      (js ''cache.just_now'', js ''V'' @ [0x1EEB] @ js ''a xong''),
      (js ''cache.minutes_ago'', js ''{minutes} ph'' @ [0xFA] @ js ''t tr'' @ [0x1B0, 0x1EDB] @
        js ''c''),
      (js ''cache.not_loaded'', js ''Ch'' @ [0x1B0] @ js ''a t'' @ [0x1EA3] @ js ''i''),
      (js ''other.views_abbr'', js ''l'' @ [0x1B0, 0x1EE3] @ js ''t xem'')]"

text \<open>
  \<^verbatim>\<open>translations\<close>, \<^verbatim>\<open>translations.ua\<close> and \<^verbatim>\<open>translations.vi\<close> are object literals: a
  property read finds an own property (the last entry, should a key be written twice) and
  otherwise goes on to \<^verbatim>\<open>Object.prototype\<close>, which holds built-in functions under the
  names below and itself under \<^verbatim>\<open>__proto__\<close>; any other name reads as \<^verbatim>\<open>undefined\<close>.
\<close>

definition translations_obj :: "(jsstring \<times> (jsstring \<times> jsstring) list) list" where
  "translations_obj = [(js ''ua'', ua_table), (js ''vi'', vi_table)]"

datatype jsval =
    Undefined
  | Str jsstring
  | Table "(jsstring \<times> jsstring) list"
  | Builtin jsstring

definition object_prototype_names :: "jsstring list" where
  "object_prototype_names =
     [js ''constructor'', js ''hasOwnProperty'', js ''isPrototypeOf'',
      js ''propertyIsEnumerable'', js ''toLocaleString'', js ''toString'', js ''valueOf'',
      js ''__proto__'', js ''__defineGetter__'', js ''__defineSetter__'',
      js ''__lookupGetter__'', js ''__lookupSetter__'']"

definition object_prototype_get :: "jsstring \<Rightarrow> jsval" where
  "object_prototype_get k = (if k \<in> set object_prototype_names then Builtin k else Undefined)"

definition own_property :: "(jsstring \<times> 'a) list \<Rightarrow> jsstring \<Rightarrow> 'a option" where
  "own_property props k = map_of (rev props) k"

definition translations_get :: "jsstring \<Rightarrow> jsval" where
  "translations_get lang =
     (case own_property translations_obj lang of
        Some tbl \<Rightarrow> Table tbl
      | None \<Rightarrow> object_prototype_get lang)"

text \<open>
  A property read either returns a value or throws; reading a property of \<^verbatim>\<open>undefined\<close>
  throws a \<^verbatim>\<open>TypeError\<close>. What a string or a built-in of \<^verbatim>\<open>Object.prototype\<close> holds
  under a name is not modelled.
\<close>

datatype js_error = TypeError

datatype 'a outcome = Returned 'a | Thrown js_error | NotModelled

fun get_property :: "jsval \<Rightarrow> jsstring \<Rightarrow> jsval outcome" where
  "get_property Undefined k = Thrown TypeError"
| "get_property (Table props) k =
     Returned (case own_property props k of Some s \<Rightarrow> Str s | None \<Rightarrow> object_prototype_get k)"
| "get_property (Str s) k = NotModelled"
| "get_property (Builtin b) k = NotModelled"

text \<open>\<^verbatim>\<open>a || b\<close> is \<open>a\<close> when \<open>a\<close> is truthy; \<^verbatim>\<open>undefined\<close> and the empty string are falsy.\<close>

fun truthy :: "jsval \<Rightarrow> bool" where
  "truthy Undefined = False"
| "truthy (Str s) = (s \<noteq> [])"
| "truthy (Table props) = True"
| "truthy (Builtin b) = True"

text \<open>
  \<^verbatim>\<open>text.replace(pattern, replacement)\<close> with a string pattern replaces the first occurrence
  of the pattern, if there is one. The replacement is a template: \<^verbatim>\<open>$$\<close> stands for
  \<^verbatim>\<open>$\<close>, \<^verbatim>\<open>$&\<close> for the matched text, \<^verbatim>\<open>$`\<close> for the text before the match and
  \<^verbatim>\<open>$'\<close> for the text after it; with a string pattern there are no groups, so any other
  \<^verbatim>\<open>$\<close> stands for itself.
\<close>

fun split_at_first :: "jsstring \<Rightarrow> jsstring \<Rightarrow> (jsstring \<times> jsstring) option" where
  "split_at_first pat [] = (if pat = [] then Some ([], []) else None)"
| "split_at_first pat (c # cs) =
     (if prefix pat (c # cs) then Some ([], drop (length pat) (c # cs))
      else map_option (\<lambda>(pre, post). (c # pre, post)) (split_at_first pat cs))"

fun get_substitution :: "jsstring \<Rightarrow> jsstring \<Rightarrow> jsstring \<Rightarrow> jsstring \<Rightarrow> jsstring" where
  "get_substitution matched pre post [] = []"
| "get_substitution matched pre post [c] = [c]"
| "get_substitution matched pre post (c # d # rest) =
     (if c = 0x24 \<and> d = 0x24 then 0x24 # get_substitution matched pre post rest
      else if c = 0x24 \<and> d = 0x26 then matched @ get_substitution matched pre post rest
      else if c = 0x24 \<and> d = 0x60 then pre @ get_substitution matched pre post rest
      else if c = 0x24 \<and> d = 0x27 then post @ get_substitution matched pre post rest
      else c # get_substitution matched pre post (d # rest))"

definition js_replace :: "jsstring \<Rightarrow> jsstring \<Rightarrow> jsstring \<Rightarrow> jsstring" where
  "js_replace text pat replacement =
     (case split_at_first pat text of
        None \<Rightarrow> text
      | Some (pre, post) \<Rightarrow> pre @ get_substitution pat pre post replacement @ post)"

text \<open>
  The loop over \<^verbatim>\<open>Object.keys(replacements)\<close>: the replacements are the own properties of
  the object in key order, each value as the string \<^verbatim>\<open>replace\<close> converts it to. Only a
  string has a \<^verbatim>\<open>replace\<close> method: on any other value of \<^verbatim>\<open>text\<close> the call throws a
  \<^verbatim>\<open>TypeError\<close>.
\<close>

fun replace_placeholders :: "jsval \<Rightarrow> (jsstring \<times> jsstring) list \<Rightarrow> jsval outcome" where
  "replace_placeholders text [] = Returned text"
| "replace_placeholders (Str s) ((placeholder, v) # rest) =
     replace_placeholders (Str (js_replace s (js ''{'' @ placeholder @ js ''}'') v)) rest"
| "replace_placeholders text ((placeholder, v) # rest) = Thrown TypeError"

text \<open>
  \<^verbatim>\<open>t(key, replacements)\<close>. Its first argument here is what
  \<^verbatim>\<open>localStorage.getItem('language')\<close> returns: \<open>None\<close> for \<^verbatim>\<open>null\<close>, else the stored string.
  The second operand of each \<^verbatim>\<open>||\<close> is evaluated only when the first is falsy.
\<close>

definition t :: "jsstring option \<Rightarrow> jsstring \<Rightarrow> (jsstring \<times> jsstring) list \<Rightarrow> jsval outcome" where
  "t language key replacements =
     (let currentLang = (case language of None \<Rightarrow> js ''ua'' | Some l \<Rightarrow> if l = [] then js ''ua'' else l)
      in case get_property (translations_get currentLang) key of
           Thrown e \<Rightarrow> Thrown e
         | NotModelled \<Rightarrow> NotModelled
         | Returned a \<Rightarrow>
             if truthy a then replace_placeholders a replacements
             else
               (case get_property (translations_get (js ''ua'')) key of
                  Thrown e \<Rightarrow> Thrown e
                | NotModelled \<Rightarrow> NotModelled
                | Returned b \<Rightarrow>
                    replace_placeholders (if truthy b then b else Str key) replacements))"

text \<open>
  What the lookup is expected to give, for comparison with \<open>t\<close>: the table of the stored
  language, the entry of the key in it, else the entry of the Ukrainian table, else the
  key, and the placeholders filled in one after the other.
\<close>

definition current_table :: "jsstring option \<Rightarrow> (jsstring \<times> jsstring) list" where
  "current_table language = (if language = Some (js ''vi'') then vi_table else ua_table)"

definition fallback_text :: "jsstring option \<Rightarrow> jsstring \<Rightarrow> jsstring" where
  "fallback_text language key =
     (case own_property (current_table language) key of
        Some s \<Rightarrow> s
      | None \<Rightarrow> (case own_property ua_table key of Some s \<Rightarrow> s | None \<Rightarrow> key))"

definition fill_placeholders :: "jsstring \<Rightarrow> (jsstring \<times> jsstring) list \<Rightarrow> jsstring" where
  "fill_placeholders s replacements =
     foldl (\<lambda>text (placeholder, v). js_replace text (js ''{'' @ placeholder @ js ''}'') v)
       s replacements"


section \<open>The filter of the back end\<close>

text \<open>
  Modelled from the spec: the Record, Query and Snapshot of its data model (section 3). The
  back end that declares them (\<^verbatim>\<open>main.py\<close>, \<^verbatim>\<open>message_parser.py\<close>) is not among the
  sources. Texts are strings of bytes; an amount is a number, so a real; a snapshot keeps
  its records in snapshot order, next to the time of the last fetch of each channel. The
  \<^verbatim>\<open>id\<close> of a record is \<open>rec_id\<close> here.
\<close>

record price =
  amount :: real
  currency :: currency

record listing =
  rec_id :: int
  channel :: string
  timestamp :: int
  rawText :: string
  price :: "price option"
  locationTags :: "string list"
  photoRefs :: "string list"
  viewCount :: "nat option"
  link :: string

datatype sort_field = ByDate | ByPrice

datatype sort_direction = Asc | Desc

record query =
  minPrice :: "real option"
  maxPrice :: "real option"
  includeTerms :: "string set"
  excludeTerms :: "string set"
  sortKey :: "sort_field \<times> sort_direction"

record snapshot =
  records :: "listing list"
  fetched :: "string \<rightharpoonup> int"

text \<open>
  Modelled from the spec: the case-insensitive substring match of section 4.4, which the
  absent back end implements. The spec does not say how case is folded, so the folding
  \<open>fold_case\<close> is a parameter of the model.
\<close>

definition contains_ci :: "(string \<Rightarrow> string) \<Rightarrow> string \<Rightarrow> string \<Rightarrow> bool" where
  "contains_ci fold_case term txt \<longleftrightarrow> sublist (fold_case term) (fold_case txt)"

text \<open>
  Modelled from the spec: the three clauses of the per-record predicate of
  \<^verbatim>\<open>FilterEngine.filter\<close> (section 4.4), whose code is absent. A price bound that is set
  excludes a record unless its price is present and within the bound; a non-empty set of
  include terms keeps a record only if a term matches one of its location tags; an exclude
  term that occurs anywhere in the raw text drops the record.
\<close>

definition price_bounds_ok :: "query \<Rightarrow> listing \<Rightarrow> bool" where
  "price_bounds_ok q r \<longleftrightarrow>
     (case minPrice q of
        None \<Rightarrow> True
      | Some lo \<Rightarrow> (case price r of None \<Rightarrow> False | Some p \<Rightarrow> amount p \<ge> lo)) \<and>
     (case maxPrice q of
        None \<Rightarrow> True
      | Some hi \<Rightarrow> (case price r of None \<Rightarrow> False | Some p \<Rightarrow> amount p \<le> hi))"

definition include_ok :: "(string \<Rightarrow> string) \<Rightarrow> query \<Rightarrow> listing \<Rightarrow> bool" where
  "include_ok fold_case q r \<longleftrightarrow>
     includeTerms q = {} \<or>
     (\<exists>term \<in> includeTerms q. \<exists>tag \<in> set (locationTags r). contains_ci fold_case term tag)"

definition exclude_ok :: "(string \<Rightarrow> string) \<Rightarrow> query \<Rightarrow> listing \<Rightarrow> bool" where
  "exclude_ok fold_case q r \<longleftrightarrow>
     \<not> (\<exists>term \<in> excludeTerms q. contains_ci fold_case term (rawText r))"

text \<open>
  Modelled from the spec: \<^verbatim>\<open>FilterEngine.filter(snapshot, query)\<close> of section 4.4, whose
  code is absent: the records of the snapshot, in snapshot order, that pass all three
  clauses.
\<close>

definition filter_engine :: "(string \<Rightarrow> string) \<Rightarrow> snapshot \<Rightarrow> query \<Rightarrow> listing list" where
  "filter_engine fold_case snap q =
     filter (\<lambda>r. price_bounds_ok q r \<and> include_ok fold_case q r \<and> exclude_ok fold_case q r)
       (records snap)"

text \<open>A folding of the ASCII letters, for examples.\<close>

definition ascii_lower :: "string \<Rightarrow> string" where
  "ascii_lower s =
     map (\<lambda>c. case map_of (zip ''ABCDEFGHIJKLMNOPQRSTUVWXYZ'' ''abcdefghijklmnopqrstuvwxyz'') c of
                Some l \<Rightarrow> l
              | None \<Rightarrow> c) s"

text \<open>A snapshot of three records and two queries, for examples.\<close>

definition listing_my_an :: listing where
  "listing_my_an =
     \<lparr>rec_id = 1, channel = ''@danang'', timestamp = 300,
      rawText = ''Cho thue nha My An, gia 12 trieu'',
      price = Some \<lparr>amount = 12000000, currency = VND\<rparr>, locationTags = [''My An''],
      photoRefs = [], viewCount = Some 40, link = ''https://t.me/danang/1''\<rparr>"

definition listing_son_tra :: listing where
  "listing_son_tra =
     \<lparr>rec_id = 2, channel = ''@danang'', timestamp = 200,
      rawText = ''Studio Son Tra $300'',
      price = Some \<lparr>amount = 300, currency = USD\<rparr>, locationTags = [''Son Tra''],
      photoRefs = [''p7''], viewCount = None, link = ''https://t.me/danang/2''\<rparr>"

definition listing_no_price :: listing where
  "listing_no_price =
     \<lparr>rec_id = 3, channel = ''@rooms'', timestamp = 100,
      rawText = ''Room 5 min from MY AN market, call me'',
      price = None, locationTags = [''market''],
      photoRefs = [], viewCount = Some 3, link = ''https://t.me/rooms/3''\<rparr>"

definition example_snapshot :: snapshot where
  "example_snapshot =
     \<lparr>records = [listing_my_an, listing_son_tra, listing_no_price],
      fetched = [''@danang'' \<mapsto> 400, ''@rooms'' \<mapsto> 350]\<rparr>"

definition query_min_price :: query where
  "query_min_price =
     \<lparr>minPrice = Some 10000000, maxPrice = None, includeTerms = {}, excludeTerms = {},
      sortKey = (ByDate, Desc)\<rparr>"

definition query_exclude :: query where
  "query_exclude =
     \<lparr>minPrice = None, maxPrice = None, includeTerms = {}, excludeTerms = {''my an''},
      sortKey = (ByDate, Desc)\<rparr>"


section \<open>Properties of the channel list\<close>

lemma addChannel_cases:
  "addChannel p = (EnterChannel, p) \<or> addChannel p = (ChannelInvalid, p) \<or>
   addChannel p = (ChannelExists, p) \<or>
   (trim (channelInput p) \<notin> set (channels p) \<and> channel_format (trim (channelInput p)) \<and>
    channels (snd (addChannel p)) = channels p @ [trim (channelInput p)])"
  by (auto simp: addChannel_def Let_def channel_format_def)

lemma channels_inv_snoc:
  "channels_inv chs \<Longrightarrow> c \<notin> set chs \<Longrightarrow> channel_format c \<Longrightarrow> channels_inv (chs @ [c])"
  by (simp add: channels_inv_def)

lemma addChannel_inv:
  "channels_inv (channels p) \<Longrightarrow> channels_inv (channels (snd (addChannel p)))"
  using addChannel_cases [of p] by (auto intro: channels_inv_snoc)

lemma removeChannel_channels:
  "channels (snd (removeChannel name p)) = filter (\<lambda>ch. ch \<noteq> name) (channels p)"
  by (simp add: removeChannel_def Let_def)

lemma channels_inv_filter:
  "channels_inv chs \<Longrightarrow> channels_inv (filter P chs)"
  by (induction chs) (auto simp: channels_inv_def)

lemma removeChannel_inv:
  "channels_inv (channels p) \<Longrightarrow> channels_inv (channels (snd (removeChannel name p)))"
  by (simp add: removeChannel_channels channels_inv_filter)

lemma perform_inv:
  "channels_inv (channels p) \<Longrightarrow> channels_inv (channels (perform p a))"
  by (cases a) (simp_all add: addChannel_inv removeChannel_inv)

lemma run_inv:
  "channels_inv (channels p) \<Longrightarrow> channels_inv (channels (run acts p))"
  unfolding run_def
  by (induction acts arbitrary: p) (simp_all add: perform_inv)

lemma addChannel_rejects:
  "trim (channelInput p) = [] \<or> \<not> channel_format (trim (channelInput p)) \<or>
   trim (channelInput p) \<in> set (channels p) \<Longrightarrow> snd (addChannel p) = p"
  by (auto simp: addChannel_def Let_def channel_format_def)

lemma removeChannel_removes: "name \<notin> set (channels (snd (removeChannel name p)))"
  by (simp add: removeChannel_channels)

lemma run_example:
  "channels (run [Add (js '' @news ''), Add (js ''-1001''), Add (js ''@news''), Add (js ''news''),
                  Add (js ''12a''), Remove (js ''-1001'')]
     \<lparr>channels = [], channelInput = js ''  '', telegram_channels = None\<rparr>) = [js ''@news'']"
  by (simp add: run_def addChannel_def removeChannel_def trim_def is_js_whitespace_def
      startsWith_at_def match_id_def digits1_def is_digit_def js_def Let_def)

text \<open>
  Claim C9. The channel list has no duplicate entry and holds only names that start with
  \<^verbatim>\<open>@\<close> or are an optional \<^verbatim>\<open>-\<close> followed by decimal digits: this holds after any
  sequence of \<^verbatim>\<open>addChannel\<close> and \<^verbatim>\<open>removeChannel\<close> calls that starts from an empty list,
  and each of the two calls keeps it. \<^verbatim>\<open>addChannel\<close> leaves the page as it is when the
  trimmed input is empty, violates the format or is in the list already, and after
  \<^verbatim>\<open>removeChannel\<close> the given name occurs in the list no more.
\<close>

theorem channel_list_invariant:
  "(channels p = [] \<longrightarrow> channels_inv (channels (run acts p))) \<and>
   (channels_inv (channels p) \<longrightarrow>
      channels_inv (channels (snd (addChannel p))) \<and>
      channels_inv (channels (snd (removeChannel name p)))) \<and>
   (trim (channelInput p) = [] \<or> \<not> channel_format (trim (channelInput p)) \<or>
    trim (channelInput p) \<in> set (channels p) \<longrightarrow> snd (addChannel p) = p) \<and>
   name \<notin> set (channels (snd (removeChannel name p)))"
proof -
  have "channels p = [] \<Longrightarrow> channels_inv (channels (run acts p))"
    by (rule run_inv) (simp add: channels_inv_def)
  then show ?thesis
    using addChannel_inv removeChannel_inv addChannel_rejects removeChannel_removes by blast
qed

theorem channel_list_invariant_witness:
  "channels \<lparr>channels = [], channelInput = js ''  '', telegram_channels = None\<rparr> = [] \<and>
   channels_inv [] \<and>
   trim (js ''  '') = [] \<and>
   channels (run [Add (js '' @news ''), Add (js ''-1001''), Add (js ''@news''), Add (js ''news''),
                  Add (js ''12a''), Remove (js ''-1001'')]
     \<lparr>channels = [], channelInput = js ''  '', telegram_channels = None\<rparr>) = [js ''@news''] \<and>
   channels_inv [js ''@news''] \<and>
   snd (addChannel \<lparr>channels = [], channelInput = js ''  '', telegram_channels = None\<rparr>) =
     \<lparr>channels = [], channelInput = js ''  '', telegram_channels = None\<rparr> \<and>
   channels_inv (channels (snd (removeChannel (js ''@news'')
     \<lparr>channels = [], channelInput = js ''  '', telegram_channels = None\<rparr>)))"
proof -
  let ?p = "\<lparr>channels = [], channelInput = js ''  '', telegram_channels = None\<rparr>"
  let ?acts = "[Add (js '' @news ''), Add (js ''-1001''), Add (js ''@news''), Add (js ''news''),
                Add (js ''12a''), Remove (js ''-1001'')]"
  have h1: "channels ?p = []" by simp
  have h2: "channels_inv (channels ?p)" by (simp add: channels_inv_def)
  have h3: "trim (channelInput ?p) = []"
    by (simp add: trim_def is_js_whitespace_def js_def)
  from channel_list_invariant [of ?p ?acts "js ''@news''"] h1 h2 h3 run_example
  show ?thesis by simp
qed


section \<open>Properties of the price display\<close>

text \<open>
  Claim C4. The magnitude heuristic is one threshold, the same at extraction and at display:
  the currency \<^verbatim>\<open>formatPrice\<close> formats a price in is the one, and the only one, that the
  heuristic of the specification (below 10,000 USD, from 10,000 on VND) infers for that
  amount, so the two never disagree on an amount.
\<close>

theorem formatPrice_magnitude_heuristic:
  "spec_magnitude_heuristic p c \<longleftrightarrow> nf_currency (formatPrice p) = c"
  by (cases c) (auto simp: spec_magnitude_heuristic_def formatPrice_def)

theorem formatPrice_magnitude_heuristic_witness:
  "(500::real) < 10000 \<and> spec_magnitude_heuristic 500 USD \<and>
   nf_currency (formatPrice 500) = USD \<and>
   (15000000::real) \<ge> 10000 \<and> spec_magnitude_heuristic 15000000 VND \<and>
   nf_currency (formatPrice 15000000) = VND \<and>
   \<not> spec_magnitude_heuristic 10000 USD \<and> nf_currency (formatPrice 10000) = VND"
  using formatPrice_magnitude_heuristic [of 500 USD]
    formatPrice_magnitude_heuristic [of 15000000 VND]
    formatPrice_magnitude_heuristic [of 10000 USD]
  by (simp add: formatPrice_def)


section \<open>Properties of the translation lookup\<close>

lemma ua_table_nonempty: "list_all (\<lambda>(k, v). v \<noteq> []) ua_table"
  by (simp add: ua_table_def js_def)

lemma vi_table_nonempty: "list_all (\<lambda>(k, v). v \<noteq> []) vi_table"
  by (simp add: vi_table_def js_def)

lemma own_property_nonempty:
  "list_all (\<lambda>(k, v). v \<noteq> []) tbl \<Longrightarrow> own_property tbl k = Some s \<Longrightarrow> s \<noteq> []"
  unfolding own_property_def
  by (auto dest!: map_of_SomeD simp: list_all_iff)

lemma translations_get_ua: "translations_get (js ''ua'') = Table ua_table"
  by (simp add: translations_get_def own_property_def translations_obj_def js_def)

lemma translations_get_vi: "translations_get (js ''vi'') = Table vi_table"
  by (simp add: translations_get_def own_property_def translations_obj_def js_def)

lemma translations_get_other:
  "l \<noteq> js ''ua'' \<Longrightarrow> l \<noteq> js ''vi'' \<Longrightarrow> translations_get l = object_prototype_get l"
  by (simp add: translations_get_def own_property_def translations_obj_def)

lemma replace_placeholders_Str:
  "replace_placeholders (Str s) reps = Returned (Str (fill_placeholders s reps))"
  by (induction reps arbitrary: s) (auto simp: fill_placeholders_def)

lemma object_prototype_get_plain:
  "key \<notin> set object_prototype_names \<Longrightarrow> object_prototype_get key = Undefined"
  by (simp add: object_prototype_get_def)

lemma current_table_nonempty: "list_all (\<lambda>(k, v). v \<noteq> []) (current_table language)"
  by (simp add: current_table_def ua_table_nonempty vi_table_nonempty)

lemma translations_get_current:
  assumes "language \<in> {None, Some [], Some (js ''ua''), Some (js ''vi'')}"
  shows "translations_get (case language of None \<Rightarrow> js ''ua'' | Some l \<Rightarrow> if l = [] then js ''ua'' else l)
         = Table (current_table language)"
proof -
  have neq: "js ''ua'' \<noteq> js ''vi''" "js ''vi'' \<noteq> []" "js ''ua'' \<noteq> []"
    by (simp_all add: js_def)
  from assms consider "language = None" | "language = Some []"
    | "language = Some (js ''ua'')" | "language = Some (js ''vi'')"
    by auto
  then show ?thesis
    using neq by cases (auto simp: current_table_def translations_get_ua translations_get_vi)
qed

lemma t_supported:
  assumes lang: "language \<in> {None, Some [], Some (js ''ua''), Some (js ''vi'')}"
    and key: "key \<notin> set object_prototype_names"
  shows "t language key reps = Returned (Str (fill_placeholders (fallback_text language key) reps))"
proof (cases "own_property (current_table language) key")
  case None
  show ?thesis
  proof (cases "own_property ua_table key")
    case None
    with \<open>own_property (current_table language) key = None\<close> show ?thesis
      by (simp add: t_def Let_def translations_get_current [OF lang] translations_get_ua
          object_prototype_get_plain [OF key] replace_placeholders_Str fallback_text_def)
  next
    case (Some s)
    then have "s \<noteq> []"
      using own_property_nonempty [OF ua_table_nonempty] by blast
    with Some \<open>own_property (current_table language) key = None\<close> show ?thesis
      by (simp add: t_def Let_def translations_get_current [OF lang] translations_get_ua
          object_prototype_get_plain [OF key] replace_placeholders_Str fallback_text_def)
  qed
next
  case (Some s)
  then have "s \<noteq> []"
    using own_property_nonempty [OF current_table_nonempty] by blast
  with Some show ?thesis
    by (simp add: t_def Let_def translations_get_current [OF lang]
        object_prototype_get_plain [OF key] replace_placeholders_Str fallback_text_def)
qed

lemma t_unsupported:
  assumes "l \<notin> {[], js ''ua'', js ''vi''}" and "l \<notin> set object_prototype_names"
  shows "t (Some l) key reps = Thrown TypeError"
  using assms
  by (simp add: t_def Let_def translations_get_other object_prototype_get_def)

lemma vi_found_messages:
  "own_property vi_table (js ''notif.found_messages'') =
     Some (js ''T'' @ [0xEC] @ js ''m th'' @ [0x1EA5] @ js ''y {count} tin '' @ [0x111, 0x103] @ js ''ng'')"
  by (simp add: own_property_def vi_table_def js_def)

lemma ua_no_constructor: "own_property ua_table (js ''constructor'') = None"
  by (simp add: own_property_def ua_table_def js_def)

text \<open>
  Claim C10, as amended. With no stored language code, or the stored code empty,
  \<^verbatim>\<open>ua\<close> or \<^verbatim>\<open>vi\<close>, and a key that is not the name of a property inherited from
  \<^verbatim>\<open>Object.prototype\<close>, \<^verbatim>\<open>t\<close> returns a string and does not throw: the entry of the key
  in the table of the current language, else its entry in the Ukrainian table, else the key
  itself, with the placeholders replaced. With a stored code that is neither of these nor
  such an inherited name, the first table lookup is undefined and \<^verbatim>\<open>t\<close> throws a
  \<^verbatim>\<open>TypeError\<close> whatever the key.
\<close>

theorem translation_lookup:
  "(language \<in> {None, Some [], Some (js ''ua''), Some (js ''vi'')} \<and>
    key \<notin> set object_prototype_names \<longrightarrow>
      t language key replacements =
        Returned (Str (fill_placeholders (fallback_text language key) replacements))) \<and>
   (l \<notin> {[], js ''ua'', js ''vi''} \<and> l \<notin> set object_prototype_names \<longrightarrow>
      t (Some l) key replacements = Thrown TypeError)"
  using t_supported t_unsupported by blast

theorem translation_lookup_witness:
  "Some (js ''vi'') \<in> {None, Some [], Some (js ''ua''), Some (js ''vi'')} \<and>
   js ''notif.found_messages'' \<notin> set object_prototype_names \<and>
   t (Some (js ''vi'')) (js ''notif.found_messages'') [(js ''count'', js ''3'')] =
     Returned (Str (js ''T'' @ [0xEC] @ js ''m th'' @ [0x1EA5] @ js ''y 3 tin '' @ [0x111, 0x103] @ js ''ng'')) \<and>
   js ''en'' \<notin> {[], js ''ua'', js ''vi''} \<and> js ''en'' \<notin> set object_prototype_names \<and>
   t (Some (js ''en'')) (js ''notif.found_messages'') [(js ''count'', js ''3'')] = Thrown TypeError"
proof -
  have h1: "Some (js ''vi'') \<in> {None, Some [], Some (js ''ua''), Some (js ''vi'')}"
    by simp
  have h2: "js ''notif.found_messages'' \<notin> set object_prototype_names"
    by (simp add: object_prototype_names_def js_def)
  have h3: "js ''en'' \<notin> {[], js ''ua'', js ''vi''}"
    by (simp add: js_def)
  have h4: "js ''en'' \<notin> set object_prototype_names"
    by (simp add: object_prototype_names_def js_def)
  have base: "fallback_text (Some (js ''vi'')) (js ''notif.found_messages'') =
      js ''T'' @ [0xEC] @ js ''m th'' @ [0x1EA5] @ js ''y {count} tin '' @ [0x111, 0x103] @ js ''ng''"
    by (simp add: fallback_text_def current_table_def vi_found_messages)
  have v: "fill_placeholders (fallback_text (Some (js ''vi'')) (js ''notif.found_messages''))
             [(js ''count'', js ''3'')] =
           js ''T'' @ [0xEC] @ js ''m th'' @ [0x1EA5] @ js ''y 3 tin '' @ [0x111, 0x103] @ js ''ng''"
    unfolding base by (simp add: fill_placeholders_def js_replace_def js_def)
  from translation_lookup [of "Some (js ''vi'')" "js ''notif.found_messages''"
      "[(js ''count'', js ''3'')]" "js ''en''"] h1 h2 h3 h4 v
  show ?thesis by simp
qed

text \<open>
  Claim C10 as stated fails for a key that names a property inherited from
  \<^verbatim>\<open>Object.prototype\<close>: \<^verbatim>\<open>constructor\<close> is in neither table, yet with no stored language
  \<^verbatim>\<open>t('constructor')\<close> returns the built-in found under that name, which is no string and
  not the key, and \<^verbatim>\<open>t('constructor', {count: 3})\<close> throws a \<^verbatim>\<open>TypeError\<close>.
\<close>

theorem translation_lookup_inherited_key:
  "own_property ua_table (js ''constructor'') = None \<and>
   t None (js ''constructor'') [] = Returned (Builtin (js ''constructor'')) \<and>
   t None (js ''constructor'') [(js ''count'', js ''3'')] = Thrown TypeError"
proof -
  have "js ''constructor'' \<in> set object_prototype_names"
    by (simp add: object_prototype_names_def)
  then show ?thesis
    by (simp add: t_def translations_get_ua ua_no_constructor object_prototype_get_def)
qed

section \<open>Properties of the filter\<close>

lemma price_bounds_ok_min:
  "price_bounds_ok q r \<Longrightarrow> minPrice q = Some lo \<Longrightarrow> \<exists>p. price r = Some p \<and> amount p \<ge> lo"
  by (auto simp: price_bounds_ok_def split: option.splits)

lemma price_bounds_ok_max:
  "price_bounds_ok q r \<Longrightarrow> maxPrice q = Some hi \<Longrightarrow> \<exists>p. price r = Some p \<and> amount p \<le> hi"
  by (auto simp: price_bounds_ok_def split: option.splits)

lemma filter_engine_passes:
  "r \<in> set (filter_engine fold_case snap q) \<longleftrightarrow>
     r \<in> set (records snap) \<and> price_bounds_ok q r \<and> include_ok fold_case q r \<and>
     exclude_ok fold_case q r"
  by (auto simp: filter_engine_def)

lemma filter_min_price_example:
  "filter_engine ascii_lower example_snapshot query_min_price = [listing_my_an]"
  by (simp add: filter_engine_def example_snapshot_def query_min_price_def price_bounds_ok_def
      include_ok_def exclude_ok_def listing_my_an_def listing_son_tra_def listing_no_price_def)

lemma my_an_in_raw_text:
  "contains_ci ascii_lower ''my an'' (rawText listing_my_an)"
  "contains_ci ascii_lower ''my an'' (rawText listing_no_price)"
  "\<not> contains_ci ascii_lower ''my an'' (rawText listing_son_tra)"
  by (simp_all add: contains_ci_def ascii_lower_def sublist_code(3) listing_my_an_def
      listing_no_price_def listing_son_tra_def)

lemma filter_exclude_example:
  "filter_engine ascii_lower example_snapshot query_exclude = [listing_son_tra]"
  by (simp add: filter_engine_def example_snapshot_def query_exclude_def price_bounds_ok_def
      include_ok_def exclude_ok_def my_an_in_raw_text)

text \<open>
  Claim C1. Whatever the snapshot and the query, a record that \<^verbatim>\<open>FilterEngine.filter\<close>
  returns has, when \<^verbatim>\<open>minPrice\<close> is set, a present price whose amount is at least
  \<^verbatim>\<open>minPrice\<close>, and when \<^verbatim>\<open>maxPrice\<close> is set, a present price whose amount is at most
  \<^verbatim>\<open>maxPrice\<close>; so no record without a price is returned when either bound is set.
\<close>

theorem filter_price_bounds:
  assumes "r \<in> set (filter_engine fold_case snap q)"
  shows "(\<forall>lo. minPrice q = Some lo \<longrightarrow> (\<exists>p. price r = Some p \<and> amount p \<ge> lo)) \<and>
         (\<forall>hi. maxPrice q = Some hi \<longrightarrow> (\<exists>p. price r = Some p \<and> amount p \<le> hi)) \<and>
         (minPrice q \<noteq> None \<or> maxPrice q \<noteq> None \<longrightarrow> price r \<noteq> None)"
proof -
  from assms have ok: "price_bounds_ok q r"
    by (simp add: filter_engine_passes)
  have "\<exists>p. price r = Some p \<and> amount p \<ge> lo" if "minPrice q = Some lo" for lo
    using ok that by (rule price_bounds_ok_min)
  moreover have "\<exists>p. price r = Some p \<and> amount p \<le> hi" if "maxPrice q = Some hi" for hi
    using ok that by (rule price_bounds_ok_max)
  ultimately show ?thesis
    by (metis option.distinct(1) option.exhaust)
qed

theorem filter_price_bounds_witness:
  "listing_my_an \<in> set (filter_engine ascii_lower example_snapshot query_min_price) \<and>
   minPrice query_min_price = Some 10000000 \<and>
   price listing_my_an = Some \<lparr>amount = 12000000, currency = VND\<rparr> \<and>
   price listing_no_price = None \<and>
   listing_no_price \<notin> set (filter_engine ascii_lower example_snapshot query_min_price) \<and>
   (\<exists>p. price listing_my_an = Some p \<and> amount p \<ge> 10000000)"
proof -
  have h: "listing_my_an \<in> set (filter_engine ascii_lower example_snapshot query_min_price)"
    by (simp add: filter_min_price_example)
  have lo: "minPrice query_min_price = Some 10000000"
    by (simp add: query_min_price_def)
  have p1: "price listing_my_an = Some \<lparr>amount = 12000000, currency = VND\<rparr>"
    by (simp add: listing_my_an_def)
  have p3: "price listing_no_price = None"
    by (simp add: listing_no_price_def)
  have out: "listing_no_price \<notin> set (filter_engine ascii_lower example_snapshot query_min_price)"
    by (simp add: filter_min_price_example listing_no_price_def listing_my_an_def)
  from filter_price_bounds [OF h] h lo p1 p3 out show ?thesis
    by blast
qed

text \<open>
  Claim C2. No record that \<^verbatim>\<open>FilterEngine.filter\<close> returns has an exclude term of the
  query as a case-insensitive substring of its raw text; and the test is on the raw text,
  not on the location tags: a record whose raw text contains an exclude term is not
  returned whatever its tags are.
\<close>

theorem filter_exclude_terms:
  "(r \<in> set (filter_engine fold_case snap q) \<and> term \<in> excludeTerms q \<longrightarrow>
      \<not> contains_ci fold_case term (rawText r)) \<and>
   (term \<in> excludeTerms q \<and> contains_ci fold_case term (rawText r') \<longrightarrow>
      r'\<lparr>locationTags := tags\<rparr> \<notin> set (filter_engine fold_case snap q))"
  by (auto simp: filter_engine_passes exclude_ok_def)

theorem filter_exclude_terms_witness:
  "listing_son_tra \<in> set (filter_engine ascii_lower example_snapshot query_exclude) \<and>
   ''my an'' \<in> excludeTerms query_exclude \<and>
   \<not> contains_ci ascii_lower ''my an'' (rawText listing_son_tra) \<and>
   contains_ci ascii_lower ''my an'' (rawText listing_no_price) \<and>
   locationTags listing_no_price = [''market''] \<and>
   listing_no_price \<notin> set (filter_engine ascii_lower example_snapshot query_exclude)"
proof -
  have h1: "listing_son_tra \<in> set (filter_engine ascii_lower example_snapshot query_exclude)"
    by (simp add: filter_exclude_example)
  have h2: "''my an'' \<in> excludeTerms query_exclude"
    by (simp add: query_exclude_def)
  have h3: "contains_ci ascii_lower ''my an'' (rawText listing_no_price)"
    by (rule my_an_in_raw_text)
  have tags: "listing_no_price\<lparr>locationTags := [''market'']\<rparr> = listing_no_price"
    by (simp add: listing_no_price_def)
  from filter_exclude_terms [of listing_son_tra ascii_lower example_snapshot query_exclude
      "''my an''" listing_no_price "[''market'']"] h1 h2 h3
  show ?thesis
    unfolding tags by (simp add: listing_no_price_def)
qed

end
